theory Spec2Isabelle
  imports Main "HOL-Library.Sublist" "HOL-Library.AList"
begin

section \<open>Office-to-PDF conversion wrapper (magic\_pdf/utils/office\_to\_pdf.py)\<close>

text \<open>
  The module has three functions: \<open>check_fonts_installed\<close>, \<open>get_soffice_command\<close> and
  \<open>convert_file_to_pdf\<close>. They are glue around the operating system: the platform name,
  directory listings, the search path, the file system and child processes. The embedding
  keeps the three functions as they are written and makes the operating system explicit:
  \<^item> what the host answers and this code cannot change is a read-only record \<open>host\<close>;
  \<^item> what this code changes (directories it creates) or does (processes it spawns) is a
    record \<open>world\<close>, passed in and returned;
  \<^item> every \<open>raise\<close> is a value \<open>Inl e\<close> of the result.
\<close>

subsection \<open>Python strings and bytes\<close>

text \<open>
  A \<open>bytes\<close> object is a list of 8-bit characters. A \<open>str\<close> is represented by its UTF-8
  encoding, again a list of 8-bit characters: the encoding is injective, and because UTF-8 is
  self-synchronising, one \<open>str\<close> occurs inside another exactly when its encoding occurs
  inside the other's encoding. All literals of the module are ASCII.
\<close>

type_synonym bytes = "char list"

text \<open>Python's \<open>needle in hay\<close> on strings: \<open>needle\<close> occurs as a contiguous run.\<close>

fun str_in :: "string \<Rightarrow> string \<Rightarrow> bool" where
  "str_in needle [] = (needle = [])"
| "str_in needle (c # cs) = (prefix needle (c # cs) \<or> str_in needle cs)"

text \<open>Python's \<open>sep.join(xs)\<close>.\<close>

fun join :: "string \<Rightarrow> string list \<Rightarrow> string" where
  "join sep [] = []"
| "join sep [x] = x"
| "join sep (x # y # ys) = x @ sep @ join sep (y # ys)"

text \<open>The truth value of a string in a condition: the empty string is false.\<close>

definition truthy :: "string \<Rightarrow> bool" where
  "truthy s = (s \<noteq> [])"

text \<open>
  \<open>bytes.decode()\<close> with its defaults is strict UTF-8: it raises \<open>UnicodeDecodeError\<close> on
  anything that is not well-formed UTF-8 (a stray continuation byte, a truncated or overlong
  sequence, an encoded surrogate, a code point above U+10FFFF). \<open>utf8_valid\<close> is the
  well-formedness table of the Unicode standard.
\<close>

definition in_range :: "nat \<Rightarrow> nat \<Rightarrow> char \<Rightarrow> bool" where
  "in_range lo hi c = (lo \<le> (of_char c :: nat) \<and> (of_char c :: nat) \<le> hi)"

fun utf8_valid :: "bytes \<Rightarrow> bool" where
  "utf8_valid [] = True"
| "utf8_valid [b] = in_range 0x00 0x7F b"
| "utf8_valid [b, c1] =
     (if in_range 0x00 0x7F b then utf8_valid [c1]
      else in_range 0xC2 0xDF b \<and> in_range 0x80 0xBF c1)"
| "utf8_valid [b, c1, c2] =
     (if in_range 0x00 0x7F b then utf8_valid [c1, c2]
      else if in_range 0xC2 0xDF b then in_range 0x80 0xBF c1 \<and> utf8_valid [c2]
      else if in_range 0xE0 0xE0 b then in_range 0xA0 0xBF c1 \<and> in_range 0x80 0xBF c2
      else if in_range 0xED 0xED b then in_range 0x80 0x9F c1 \<and> in_range 0x80 0xBF c2
      else in_range 0xE1 0xEF b \<and> in_range 0x80 0xBF c1 \<and> in_range 0x80 0xBF c2)"
| "utf8_valid (b # c1 # c2 # c3 # rest) =
     (if in_range 0x00 0x7F b then utf8_valid (c1 # c2 # c3 # rest)
      else if in_range 0xC2 0xDF b then in_range 0x80 0xBF c1 \<and> utf8_valid (c2 # c3 # rest)
      else if in_range 0xE0 0xE0 b then
        in_range 0xA0 0xBF c1 \<and> in_range 0x80 0xBF c2 \<and> utf8_valid (c3 # rest)
      else if in_range 0xED 0xED b then
        in_range 0x80 0x9F c1 \<and> in_range 0x80 0xBF c2 \<and> utf8_valid (c3 # rest)
      else if in_range 0xE1 0xEF b then
        in_range 0x80 0xBF c1 \<and> in_range 0x80 0xBF c2 \<and> utf8_valid (c3 # rest)
      else if in_range 0xF0 0xF0 b then
        in_range 0x90 0xBF c1 \<and> in_range 0x80 0xBF c2 \<and> in_range 0x80 0xBF c3 \<and> utf8_valid rest
      else if in_range 0xF4 0xF4 b then
        in_range 0x80 0x8F c1 \<and> in_range 0x80 0xBF c2 \<and> in_range 0x80 0xBF c3 \<and> utf8_valid rest
      else in_range 0xF1 0xF3 b \<and>
        in_range 0x80 0xBF c1 \<and> in_range 0x80 0xBF c2 \<and> in_range 0x80 0xBF c3 \<and> utf8_valid rest)"

subsection \<open>Exceptions\<close>

text \<open>
  \<open>ConvertToPdfError\<close> is the module's own exception class; \<open>str(e)\<close> of it is its message.
  \<open>EnvironmentError m\<close> and \<open>FileNotFoundError m\<close> are the exceptions the module raises
  itself with the message \<open>m\<close>. \<open>OSError k\<close> is the error of a system call, by its errno
  (in Python a \<open>FileNotFoundError\<close>, \<open>FileExistsError\<close>, \<open>NotADirectoryError\<close>,
  \<open>PermissionError\<close> or plain \<open>OSError\<close>); the path that the error names is not
  modelled. \<open>ValueError m\<close> is raised by a system call on a path it cannot encode.
  \<open>UnicodeDecodeError b\<close> is raised by decoding the bytes \<open>b\<close>. \<open>OtherException m\<close>
  is any other exception a library call raises, with its text.
\<close>

datatype errno = ENOENT | EEXIST | ENOTDIR | ENAMETOOLONG | EACCES | EROFS | ENOSPC

datatype exn =
    FileNotFoundError string
  | EnvironmentError string
  | ConvertToPdfError string
  | OSError errno
  | ValueError string
  | UnicodeDecodeError bytes
  | OtherException string

text \<open>
  Why a host refuses to create a directory at a place where the tree would take one: a name
  too long for the file system, a name with a null byte, no permission, a read-only or a
  full file system. \<open>refusal_exn\<close> is the exception \<open>os.mkdir\<close> raises for it.
\<close>

datatype refusal = NameTooLong | EmbeddedNull | PermissionDenied | ReadOnly | NoSpace

primrec refusal_exn :: "refusal \<Rightarrow> exn" where
  "refusal_exn NameTooLong = OSError ENAMETOOLONG"
| "refusal_exn EmbeddedNull = ValueError ''embedded null byte''"
| "refusal_exn PermissionDenied = OSError EACCES"
| "refusal_exn ReadOnly = OSError EROFS"
| "refusal_exn NoSpace = OSError ENOSPC"

text \<open>
  The outcome of a \<open>try\<close> block whose handler is \<open>except Exception as e\<close> and uses only
  \<open>str(e)\<close>: \<open>Raised s\<close> is an exception with \<open>str(e) = s\<close>.
\<close>

datatype 'a outcome = Raised string | Returned 'a

subsection \<open>The host and the world\<close>

text \<open>
  The file system is a tree: a regular file, or a directory with its entries by name (the
  first entry of a name is the one found). \<open>kind\<close> is what \<open>stat\<close> reports of a node.
\<close>

datatype node = File | Dir "(string \<times> node) list"

datatype kind = Regular | Directory

text \<open>
  A resolved path is the list of names from the root (or current) directory down to the
  node; the empty list is that directory itself.
\<close>

type_synonym path = "string list"

text \<open>A \<open>pathlib.Path\<close> value, as the module builds it: \<open>Path(s)\<close> and \<open>p / s\<close>.\<close>

datatype pure_path = Path string | Div pure_path string

datatype stream = Inherit | PIPE

record spawn =
  argv :: "string list"
  stdout_to :: stream
  stderr_to :: stream

record completed_process =
  returncode :: int
  stdout :: bytes
  stderr :: bytes

text \<open>
  The host: \<open>system\<close> is \<open>platform.system()\<close>; \<open>glob_names p pat\<close> the names of the entries
  \<open>p.glob(pat)\<close> yields; \<open>check_output\<close> and \<open>run\<close> what the child process spawned with the
  given command line does, as \<open>subprocess.check_output(..., encoding='utf-8')\<close> and
  \<open>subprocess.run\<close> report it; \<open>which\<close> is \<open>shutil.which\<close>; \<open>environ\<close> is \<open>os.environ\<close>;
  \<open>path_str p\<close> is \<open>str(p)\<close> of a \<open>Path\<close>; \<open>resolve s\<close> is the place in the file system
  that the path string \<open>s\<close> names; \<open>mkdir_refused p\<close> is the reason, if there is one, for
  which the host refuses to create a directory at the place \<open>p\<close>.
\<close>

record host =
  system :: string
  glob_names :: "pure_path \<Rightarrow> string \<Rightarrow> string list"
  check_output :: "string list \<Rightarrow> string outcome"
  which :: "string \<Rightarrow> string option"
  environ :: "string \<Rightarrow> string option"
  path_str :: "pure_path \<Rightarrow> string"
  resolve :: "string \<Rightarrow> path"
  mkdir_refused :: "path \<Rightarrow> refusal option"
  run :: "string list \<Rightarrow> exn + completed_process"

text \<open>
  The world: \<open>fs\<close> is the file-system tree, \<open>spawned\<close> the child processes started
  so far, oldest first. Symbolic links and what the child processes themselves write are not
  modelled.
\<close>

record world =
  fs :: node
  spawned :: "spawn list"

subsection \<open>File-system calls\<close>

primrec kind_of :: "node \<Rightarrow> kind" where
  "kind_of File = Regular"
| "kind_of (Dir entries) = Directory"

text \<open>
  \<open>stat\<close> walks down from the root: a name looked up in a regular file is \<open>ENOTDIR\<close>,
  a name that a directory does not have is \<open>ENOENT\<close>.
\<close>

fun stat :: "node \<Rightarrow> path \<Rightarrow> errno + kind" where
  "stat t [] = Inr (kind_of t)"
| "stat File (name # rest) = Inl ENOTDIR"
| "stat (Dir entries) (name # rest) =
     (case map_of entries name of None \<Rightarrow> Inl ENOENT | Some t \<Rightarrow> stat t rest)"

text \<open>
  \<open>os.makedirs(name, exist_ok=True)\<close> on a resolved path, \<open>here\<close> being the place of
  the node \<open>t\<close>: the directories on the way that exist are kept, each missing one is
  created, empty, from the top down. It fails with \<open>FileExistsError\<close> when the path itself
  is a regular file and with \<open>NotADirectoryError\<close> when a name on the way is one; nothing
  has been created then, since everything above an existing file exists. It fails with the
  host's error when the host refuses a directory; those created above it stay. The result is
  the error, if any, and the tree as the call leaves it.
\<close>

fun makedirs ::
    "(path \<Rightarrow> refusal option) \<Rightarrow> path \<Rightarrow> node \<Rightarrow> path \<Rightarrow> exn option \<times> node" where
  "makedirs refused here File [] = (Some (OSError EEXIST), File)"
| "makedirs refused here (Dir entries) [] = (None, Dir entries)"
| "makedirs refused here File (name # rest) = (Some (OSError ENOTDIR), File)"
| "makedirs refused here (Dir entries) (name # rest) =
     (case map_of entries name of
        Some t \<Rightarrow>
          (case makedirs refused (here @ [name]) t rest of
             (r, t') \<Rightarrow> (r, Dir (AList.update name t' entries)))
      | None \<Rightarrow>
          (case refused (here @ [name]) of
             Some why \<Rightarrow> (Some (refusal_exn why), Dir entries)
           | None \<Rightarrow>
               (case makedirs refused (here @ [name]) (Dir []) rest of
                  (r, t') \<Rightarrow> (r, Dir (AList.update name t' entries)))))"

text \<open>The calls on path strings. The empty string names nothing.\<close>

definition os_stat :: "host \<Rightarrow> world \<Rightarrow> string \<Rightarrow> errno + kind" where
  "os_stat h w s = (if s = [] then Inl ENOENT else stat (fs w) (resolve h s))"

definition os_path_exists :: "host \<Rightarrow> world \<Rightarrow> string \<Rightarrow> bool" where
  "os_path_exists h w s = (case os_stat h w s of Inr n \<Rightarrow> True | Inl e \<Rightarrow> False)"

definition os_path_isfile :: "host \<Rightarrow> world \<Rightarrow> string \<Rightarrow> bool" where
  "os_path_isfile h w s = (os_stat h w s = Inr Regular)"

definition os_path_isdir :: "host \<Rightarrow> world \<Rightarrow> string \<Rightarrow> bool" where
  "os_path_isdir h w s = (os_stat h w s = Inr Directory)"

definition os_makedirs :: "host \<Rightarrow> world \<Rightarrow> string \<Rightarrow> exn option \<times> world" where
  "os_makedirs h w s =
     (if s = [] then (Some (OSError ENOENT), w)
      else case makedirs (mkdir_refused h) [] (fs w) (resolve h s) of
             (r, t) \<Rightarrow> (r, w\<lparr>fs := t\<rparr>))"

text \<open>\<open>os.environ.get(key, default)\<close>.\<close>

definition environ_get :: "host \<Rightarrow> string \<Rightarrow> string \<Rightarrow> string" where
  "environ_get h key dflt = (case environ h key of Some v \<Rightarrow> v | None \<Rightarrow> dflt)"

text \<open>\<open>p.exists()\<close> of a \<open>Path\<close> asks the file system for \<open>str(p)\<close>.\<close>

definition Path_exists :: "host \<Rightarrow> world \<Rightarrow> pure_path \<Rightarrow> bool" where
  "Path_exists h w p = os_path_exists h w (path_str h p)"

subsection \<open>check\_fonts\_installed\<close>

definition REQUIRED_CHS_FONTS :: "string list" where
  "REQUIRED_CHS_FONTS = [''SimSun'', ''Microsoft YaHei'', ''Noto Sans CJK SC'']"

definition missing_font_message :: string where
  "missing_font_message =
     ''Missing Chinese font. Please install at least one of: '' @ join '', '' REQUIRED_CHS_FONTS"

definition fontconfig_prefix :: string where
  "fontconfig_prefix = ''Font detection failed. Please install 'fontconfig' and fonts: ''"

definition fc_list_spawn :: spawn where
  "fc_list_spawn = \<lparr>argv = [''fc-list'', '':lang=zh''], stdout_to = PIPE, stderr_to = Inherit\<rparr>"

text \<open>
  The loop \<open>for font in REQUIRED_CHS_FONTS: if font in output: return True\<close> and the
  \<open>raise EnvironmentError(...)\<close> that follows it, both inside the \<open>try\<close>.
\<close>

fun scan_fonts :: "string list \<Rightarrow> string \<Rightarrow> bool outcome" where
  "scan_fonts [] output = Raised missing_font_message"
| "scan_fonts (font # fonts) output =
     (if str_in font output then Returned True else scan_fonts fonts output)"

definition fc_list_try :: "host \<Rightarrow> bool outcome" where
  "fc_list_try h =
     (case check_output h [''fc-list'', '':lang=zh''] of
        Raised s \<Rightarrow> Raised s
      | Returned output \<Rightarrow> scan_fonts REQUIRED_CHS_FONTS output)"

definition check_fonts_installed :: "host \<Rightarrow> world \<Rightarrow> (exn + bool) \<times> world" where
  "check_fonts_installed h w =
     (if system h = ''Windows'' then
        (let font_dir = Path ''C:/Windows/Fonts'';
             installed_fonts = glob_names h font_dir ''*.ttf''
         in if list_ex truthy
                 [font \<leftarrow> REQUIRED_CHS_FONTS. list_ex (\<lambda>f. str_in font f) installed_fonts]
            then (Inr True, w)
            else (Inl (EnvironmentError missing_font_message), w))
      else
        (let w' = w\<lparr>spawned := spawned w @ [fc_list_spawn]\<rparr>
         in case fc_list_try h of
              Returned b \<Rightarrow> (Inr b, w')
            | Raised s \<Rightarrow> (Inl (EnvironmentError (fontconfig_prefix @ s)), w')))"

subsection \<open>get\_soffice\_command\<close>

definition windows_not_found_message :: string where
  "windows_not_found_message =
     ''LibreOffice not found. Please install LibreOffice from https://www.libreoffice.org/ '' @
     ''or ensure soffice.exe is in your PATH environment variable.''"

definition unix_not_found_message :: string where
  "unix_not_found_message =
     ''LibreOffice not found. Please install it:'' @ [CHR 0x0A] @
     ''  - Ubuntu/Debian: sudo apt-get install libreoffice'' @ [CHR 0x0A] @
     ''  - CentOS/RHEL: sudo yum install libreoffice'' @ [CHR 0x0A] @
     ''  - macOS: brew install libreoffice or download from https://www.libreoffice.org/'' @
     [CHR 0x0A] @
     ''  - Or ensure soffice is in your PATH environment variable.''"

definition locating_prefix :: string where
  "locating_prefix = ''Error locating LibreOffice: ''"

text \<open>The Windows candidates: the four literal entries, then one appended per drive.\<close>

fun append_drives :: "pure_path list \<Rightarrow> string list \<Rightarrow> pure_path list" where
  "append_drives possible_paths [] = possible_paths"
| "append_drives possible_paths (drive # drives) =
     append_drives (possible_paths @ [Path (drive @ ''/LibreOffice/program/soffice.exe'')]) drives"

definition windows_possible_paths :: "host \<Rightarrow> pure_path list" where
  "windows_possible_paths h =
     append_drives
       [Div (Path (environ_get h ''PROGRAMFILES'' ''C:/Program Files''))
            ''LibreOffice/program/soffice.exe'',
        Div (Path (environ_get h ''PROGRAMFILES(X86)'' ''C:/Program Files (x86)''))
            ''LibreOffice/program/soffice.exe'',
        Path ''C:/Program Files/LibreOffice/program/soffice.exe'',
        Path ''C:/Program Files (x86)/LibreOffice/program/soffice.exe'']
       [''C:'', ''D:'', ''E:'', ''F:'', ''G:'', ''H:'']"

definition unix_possible_paths :: "string list" where
  "unix_possible_paths =
     [''/usr/bin/soffice'',
      ''/usr/local/bin/soffice'',
      ''/opt/libreoffice/program/soffice'',
      ''/Applications/LibreOffice.app/Contents/MacOS/soffice'']"

text \<open>\<open>for path in possible_paths: if path.exists(): return str(path)\<close>, then the raise.\<close>

fun windows_loop :: "host \<Rightarrow> world \<Rightarrow> pure_path list \<Rightarrow> exn + string" where
  "windows_loop h w [] = Inl (ConvertToPdfError windows_not_found_message)"
| "windows_loop h w (p # ps) =
     (if Path_exists h w p then Inr (path_str h p) else windows_loop h w ps)"

text \<open>
  \<open>for path in possible_paths: if os.path.exists(path): return path\<close>, then the raise of
  \<open>ConvertToPdfError\<close>, both inside the \<open>try\<close>.
\<close>

fun unix_loop :: "host \<Rightarrow> world \<Rightarrow> string list \<Rightarrow> string outcome" where
  "unix_loop h w [] = Raised unix_not_found_message"
| "unix_loop h w (p # ps) =
     (if os_path_exists h w p then Returned p else unix_loop h w ps)"

definition get_soffice_command :: "host \<Rightarrow> world \<Rightarrow> exn + string" where
  "get_soffice_command h w =
     (let soffice_path = which h ''soffice'' in
      case (case soffice_path of Some p \<Rightarrow> if truthy p then Some p else None | None \<Rightarrow> None) of
        Some p \<Rightarrow> Inr p
      | None \<Rightarrow>
          if system h = ''Windows'' then windows_loop h w (windows_possible_paths h)
          else (case unix_loop h w unix_possible_paths of
                  Returned p \<Rightarrow> Inr p
                | Raised s \<Rightarrow> Inl (ConvertToPdfError (locating_prefix @ s))))"

subsection \<open>convert\_file\_to\_pdf\<close>

definition input_missing_message :: "string \<Rightarrow> string" where
  "input_missing_message input_path = ''The input file '' @ input_path @ '' does not exist.''"

definition convert_failed_prefix :: string where
  "convert_failed_prefix = ''LibreOffice convert failed: ''"

definition soffice_argv :: "string \<Rightarrow> string \<Rightarrow> string \<Rightarrow> string list" where
  "soffice_argv soffice_cmd input_path output_dir =
     [soffice_cmd, ''--headless'', ''--norestore'', ''--invisible'',
      ''--convert-to'', ''pdf'', ''--outdir'', output_dir, input_path]"

text \<open>\<open>b.decode()\<close>: the text, or \<open>UnicodeDecodeError\<close>.\<close>

definition decode :: "bytes \<Rightarrow> exn + string" where
  "decode b = (if utf8_valid b then Inr b else Inl (UnicodeDecodeError b))"

text \<open>
  The body after \<open>os.makedirs\<close>: the font check, the search for the executable, the
  child process and the test of its exit code.
\<close>

definition convert_after_makedirs ::
    "host \<Rightarrow> world \<Rightarrow> string \<Rightarrow> string \<Rightarrow> (exn + unit) \<times> world" where
  "convert_after_makedirs h w1 input_path output_dir =
     (case check_fonts_installed h w1 of
        (Inl e, w2) \<Rightarrow> (Inl e, w2)
      | (Inr b, w2) \<Rightarrow>
          (case get_soffice_command h w2 of
             Inl e \<Rightarrow> (Inl e, w2)
           | Inr soffice_cmd \<Rightarrow>
               (let cmd = soffice_argv soffice_cmd input_path output_dir;
                    w3 = w2\<lparr>spawned := spawned w2 @
                           [\<lparr>argv = cmd, stdout_to = PIPE, stderr_to = PIPE\<rparr>]\<rparr>
                in case run h cmd of
                     Inl e \<Rightarrow> (Inl e, w3)
                   | Inr process \<Rightarrow>
                       if returncode process \<noteq> 0 then
                         (case decode (stderr process) of
                            Inl e \<Rightarrow> (Inl e, w3)
                          | Inr text \<Rightarrow>
                              (Inl (ConvertToPdfError (convert_failed_prefix @ text)), w3))
                       else (Inr (), w3))))"

definition convert_file_to_pdf ::
    "host \<Rightarrow> world \<Rightarrow> string \<Rightarrow> string \<Rightarrow> (exn + unit) \<times> world" where
  "convert_file_to_pdf h w input_path output_dir =
     (if \<not> os_path_isfile h w input_path then
        (Inl (FileNotFoundError (input_missing_message input_path)), w)
      else
        case os_makedirs h w output_dir of
          (Some e, w1) \<Rightarrow> (Inl e, w1)
        | (None, w1) \<Rightarrow> convert_after_makedirs h w1 input_path output_dir)"

subsection \<open>The search order as the specification words it\<close>

text \<open>
  The name on the search path first; then, on Windows, the install path under Program Files,
  under Program Files (x86) and under the drives C to H; on other platforms the standard
  Unix and macOS install paths. The first path that exists is the answer.
\<close>

definition soffice_rel :: string where
  "soffice_rel = ''LibreOffice/program/soffice.exe''"

definition spec_windows_candidates :: "host \<Rightarrow> pure_path list" where
  "spec_windows_candidates h =
     [Div (Path (environ_get h ''PROGRAMFILES'' ''C:/Program Files'')) soffice_rel,
      Div (Path (environ_get h ''PROGRAMFILES(X86)'' ''C:/Program Files (x86)'')) soffice_rel,
      Path ''C:/Program Files/LibreOffice/program/soffice.exe'',
      Path ''C:/Program Files (x86)/LibreOffice/program/soffice.exe'',
      Path ''C:/LibreOffice/program/soffice.exe'',
      Path ''D:/LibreOffice/program/soffice.exe'',
      Path ''E:/LibreOffice/program/soffice.exe'',
      Path ''F:/LibreOffice/program/soffice.exe'',
      Path ''G:/LibreOffice/program/soffice.exe'',
      Path ''H:/LibreOffice/program/soffice.exe'']"

definition spec_candidates :: "host \<Rightarrow> string list" where
  "spec_candidates h =
     (if system h = ''Windows'' then map (path_str h) (spec_windows_candidates h)
      else [''/usr/bin/soffice'', ''/usr/local/bin/soffice'',
            ''/opt/libreoffice/program/soffice'',
            ''/Applications/LibreOffice.app/Contents/MacOS/soffice''])"

definition spec_search_order :: "host \<Rightarrow> world \<Rightarrow> string option" where
  "spec_search_order h w =
     (case which h ''soffice'' of
        Some p \<Rightarrow> Some p
      | None \<Rightarrow> find (os_path_exists h w) (spec_candidates h))"

subsection \<open>A concrete host and world\<close>

text \<open>
  Path strings split at \<open>/\<close>, empty names dropped; \<open>str\<close> of a \<open>Path\<close> joined with
  \<open>/\<close>. The example is a Linux host with a Noto font, \<open>soffice\<close> on the search path
  and a conversion that succeeds; the world holds one document and one empty directory.
\<close>

fun split_names :: "string \<Rightarrow> string \<Rightarrow> path" where
  "split_names cur [] = (if cur = [] then [] else [cur])"
| "split_names cur (c # cs) =
     (if c = CHR ''/'' then (if cur = [] then split_names [] cs else cur # split_names [] cs)
      else split_names (cur @ [c]) cs)"

primrec plain_path_str :: "pure_path \<Rightarrow> string" where
  "plain_path_str (Path s) = s"
| "plain_path_str (Div p s) = plain_path_str p @ ''/'' @ s"

definition example_host :: host where
  "example_host =
     \<lparr>system = ''Linux'',
      glob_names = (\<lambda>p pat. []),
      check_output = (\<lambda>cmd. Returned ''NotoSansCJK-Regular.ttc: Noto Sans CJK SC:style=Regular''),
      which = (\<lambda>name. if name = ''soffice'' then Some ''/usr/bin/soffice'' else None),
      environ = (\<lambda>key. None),
      path_str = plain_path_str,
      resolve = split_names [],
      mkdir_refused = (\<lambda>p. None),
      run = (\<lambda>cmd. Inr \<lparr>returncode = 0, stdout = [], stderr = []\<rparr>)\<rparr>"

definition example_world :: world where
  "example_world =
     \<lparr>fs = Dir [(''docs'', Dir [(''report.docx'', File)]), (''out'', Dir [])],
      spawned = []\<rparr>"

text \<open>
  The document converted as it is; the variants of the host: a Windows host with a SimSun
  font file, a host whose font list has no required family, a host without \<open>soffice\<close> on
  the search path, a host that refuses the directory \<open>new/pdf\<close> for its name, and two
  hosts whose conversion fails, one writing \<open>bad format\<close> and one writing the byte
  \<open>0xFF\<close> to its standard error.
\<close>

definition example_world1 :: world where
  "example_world1 =
     \<lparr>fs = Dir [(''docs'', Dir [(''report.docx'', File)]), (''out'', Dir [(''pdf'', Dir [])])],
      spawned = []\<rparr>"

definition example_world2 :: world where
  "example_world2 = example_world1\<lparr>spawned := [fc_list_spawn]\<rparr>"

definition soffice_world :: world where
  "soffice_world =
     \<lparr>fs = Dir [(''usr'', Dir [(''bin'', Dir [(''soffice'', Dir [])]),
                              (''local'', Dir [(''bin'', Dir [(''soffice'', File)])])])],
      spawned = []\<rparr>"

definition windows_host :: host where
  "windows_host =
     example_host\<lparr>system := ''Windows'',
       glob_names := (\<lambda>p pat. if p = Path ''C:/Windows/Fonts'' \<and> pat = ''*.ttf''
                                 then [''arial.ttf'', ''SimSun.ttf''] else []),
       which := (\<lambda>name. None)\<rparr>"

definition no_font_host :: host where
  "no_font_host =
     example_host\<lparr>check_output := (\<lambda>cmd. Returned ''DejaVuSans.ttf: DejaVu Sans:style=Book'')\<rparr>"

definition no_soffice_host :: host where
  "no_soffice_host = example_host\<lparr>which := (\<lambda>name. None)\<rparr>"

definition refusing_host :: host where
  "refusing_host =
     example_host\<lparr>mkdir_refused :=
       (\<lambda>p. if p = [''new'', ''pdf''] then Some NameTooLong else None)\<rparr>"

definition bad_format_host :: host where
  "bad_format_host =
     example_host\<lparr>run := (\<lambda>cmd. Inr \<lparr>returncode = 1, stdout = [], stderr = ''bad format''\<rparr>)\<rparr>"

definition bad_bytes_host :: host where
  "bad_bytes_host =
     example_host\<lparr>run := (\<lambda>cmd. Inr \<lparr>returncode = 1, stdout = [], stderr = [CHR 0xFF]\<rparr>)\<rparr>"

section \<open>Properties\<close>

subsection \<open>Strings\<close>

lemma str_in_sublist: "str_in needle hay \<longleftrightarrow> sublist needle hay"
  by (induction hay) (auto simp: sublist_Cons_right)

lemma sublist_join: "x \<in> set xs \<Longrightarrow> sublist x (join sep xs)"
proof (induction sep xs rule: join.induct)
  case (3 sep x' y ys)
  show ?case
  proof (cases "x = x'")
    case True
    then show ?thesis by simp
  next
    case False
    with 3 have "sublist x (join sep (y # ys))" by simp
    then have "sublist x ((x' @ sep) @ join sep (y # ys))"
      by (metis sublist_append)
    then show ?thesis by simp
  qed
qed simp_all

lemma message_names_fonts:
  "font \<in> set REQUIRED_CHS_FONTS \<Longrightarrow> sublist font missing_font_message"
  unfolding missing_font_message_def
  by (metis sublist_join sublist_append)

lemma message_names_fonts_wrapped:
  "font \<in> set REQUIRED_CHS_FONTS \<Longrightarrow> sublist font (p @ missing_font_message)"
  by (metis message_names_fonts sublist_append)

lemma fontconfig_hint: "sublist ''install 'fontconfig' and'' (fontconfig_prefix @ s)"
proof -
  have "sublist ''install 'fontconfig' and'' fontconfig_prefix"
    unfolding fontconfig_prefix_def by (simp add: sublist_code)
  then show ?thesis by (metis sublist_append)
qed

subsection \<open>The font check\<close>

lemma scan_fonts_eq:
  "scan_fonts fonts output =
     (if \<exists>font \<in> set fonts. sublist font output then Returned True
      else Raised missing_font_message)"
  by (induction fonts) (auto simp: str_in_sublist)

lemma required_truthy: "\<forall>font \<in> set REQUIRED_CHS_FONTS. truthy font"
  by (simp add: REQUIRED_CHS_FONTS_def truthy_def)

lemma windows_any:
  "list_ex truthy [font \<leftarrow> REQUIRED_CHS_FONTS. list_ex (\<lambda>f. str_in font f) names] \<longleftrightarrow>
     (\<exists>font \<in> set REQUIRED_CHS_FONTS. \<exists>f \<in> set names. sublist font f)"
  using required_truthy by (auto simp: list_ex_iff str_in_sublist)

lemma check_fonts_fs: "fs (snd (check_fonts_installed h w)) = fs w"
  by (simp add: check_fonts_installed_def Let_def split: outcome.splits)

lemma check_fonts_spawned:
  "spawned (snd (check_fonts_installed h w)) =
     spawned w @ (if system h = ''Windows'' then [] else [fc_list_spawn])"
  by (simp add: check_fonts_installed_def Let_def split: outcome.splits)

subsection \<open>The search for the executable\<close>

lemma windows_possible_paths_eq: "windows_possible_paths h = spec_windows_candidates h"
  by (simp add: windows_possible_paths_def spec_windows_candidates_def soffice_rel_def)

lemma windows_loop_find:
  "windows_loop h w ps =
     (case find (os_path_exists h w) (map (path_str h) ps) of
        Some p \<Rightarrow> Inr p
      | None \<Rightarrow> Inl (ConvertToPdfError windows_not_found_message))"
  by (induction ps) (simp_all add: Path_exists_def)

lemma unix_loop_find:
  "unix_loop h w ps =
     (case find (os_path_exists h w) ps of
        Some p \<Rightarrow> Returned p
      | None \<Rightarrow> Raised unix_not_found_message)"
  by (induction ps) simp_all

lemma get_soffice_command_eq:
  "get_soffice_command h w =
     (case which h ''soffice'' of
        Some p \<Rightarrow> if p \<noteq> [] then Inr p else
          (case find (os_path_exists h w) (spec_candidates h) of
            Some p \<Rightarrow> Inr p
          | None \<Rightarrow> Inl (ConvertToPdfError
              (if system h = ''Windows'' then windows_not_found_message
               else locating_prefix @ unix_not_found_message)))
      | None \<Rightarrow>
          (case find (os_path_exists h w) (spec_candidates h) of
            Some p \<Rightarrow> Inr p
          | None \<Rightarrow> Inl (ConvertToPdfError
              (if system h = ''Windows'' then windows_not_found_message
               else locating_prefix @ unix_not_found_message))))"
  by (auto simp: get_soffice_command_def Let_def truthy_def windows_loop_find unix_loop_find
                 windows_possible_paths_eq spec_candidates_def unix_possible_paths_def
           split: option.splits)

lemma windows_guidance:
  "sublist ''install LibreOffice from https://www.libreoffice.org/'' windows_not_found_message"
  "sublist ''ensure soffice.exe is in your PATH'' windows_not_found_message"
  unfolding windows_not_found_message_def by (simp_all add: sublist_code)

lemma unix_guidance:
  "sublist ''sudo apt-get install libreoffice'' unix_not_found_message"
  "sublist ''sudo yum install libreoffice'' unix_not_found_message"
  "sublist ''brew install libreoffice'' unix_not_found_message"
  unfolding unix_not_found_message_def by (simp_all add: sublist_code)

subsection \<open>The file system\<close>

lemma stat_empty_dir: "stat (Dir []) q = (if q = [] then Inr Directory else Inl ENOENT)"
  by (cases q) simp_all


lemma makedirs_None_stat:
  "makedirs R here t p = (None, t') \<Longrightarrow>
   stat t' q = (if prefix q p then Inr Directory else stat t q)"
proof (induction R here t p arbitrary: t' q rule: makedirs.induct)
  case (1 R here)
  then show ?case by simp
next
  case (2 R here entries)
  then show ?case by (cases q) auto
next
  case (3 R here name rest)
  then show ?case by simp
next
  case (4 R here entries name rest)
  let ?sub = "case map_of entries name of None \<Rightarrow> Dir [] | Some t \<Rightarrow> t"
  from "4.prems" obtain t'' where sub: "makedirs R (here @ [name]) ?sub rest = (None, t'')"
    and t': "t' = Dir (AList.update name t'' entries)"
    by (auto split: option.splits prod.splits)
  have ih: "stat t'' q' = (if prefix q' rest then Inr Directory else stat ?sub q')" for q'
  proof (cases "map_of entries name")
    case None
    with "4.prems" have "R (here @ [name]) = None" by (auto split: option.splits)
    from "4.IH"(1)[OF None this] sub None show ?thesis by simp
  next
    case (Some t0)
    from "4.IH"(2)[OF Some] sub Some show ?thesis by simp
  qed
  show ?case
  proof (cases q)
    case Nil
    then show ?thesis by (simp add: t')
  next
    case (Cons m q')
    show ?thesis
    proof (cases "m = name")
      case True
      have "stat t' q = stat t'' q'"
        by (simp add: t' Cons True update_conv')
      also have "\<dots> = (if prefix q' rest then Inr Directory else stat ?sub q')"
        by (rule ih)
      also have "\<dots> = (if prefix q (name # rest) then Inr Directory else stat (Dir entries) q)"
        by (auto simp: Cons True stat_empty_dir split: option.splits)
      finally show ?thesis .
    next
      case False
      then show ?thesis
        by (simp add: t' Cons update_conv')
    qed
  qed
qed





lemma makedirs_exn:
  "fst (makedirs R here t p) = Some e \<Longrightarrow>
   e = OSError EEXIST \<or> e = OSError ENOTDIR \<or> (\<exists>why. e = refusal_exn why)"
  by (induction R here t p rule: makedirs.induct) (auto split: option.splits prod.splits)

lemma refusal_exn_kind: "(\<exists>k. refusal_exn why = OSError k) \<or> (\<exists>m. refusal_exn why = ValueError m)"
  by (cases why) simp_all

lemma os_stat_cong:
  "fs w' = fs w \<Longrightarrow> resolve h' = resolve h \<Longrightarrow> os_stat h' w' s = os_stat h w s"
  by (simp add: os_stat_def)

lemma os_makedirs_spawned: "spawned (snd (os_makedirs h w s)) = spawned w"
  by (simp add: os_makedirs_def case_prod_beta)

lemma os_makedirs_None:
  assumes "os_makedirs h w s = (None, w1)"
  shows "s \<noteq> []" and "spawned w1 = spawned w"
    and "makedirs (mkdir_refused h) [] (fs w) (resolve h s) = (None, fs w1)"
    and "os_stat h w1 q = (if q = [] then Inl ENOENT
           else if prefix (resolve h q) (resolve h s) then Inr Directory else os_stat h w q)"
proof -
  from assms show ne: "s \<noteq> []" by (auto simp: os_makedirs_def split: if_splits)
  from assms ne obtain t where t: "makedirs (mkdir_refused h) [] (fs w) (resolve h s) = (None, t)"
    and w1: "w1 = w\<lparr>fs := t\<rparr>"
    by (auto simp: os_makedirs_def split: prod.splits)
  from w1 show "spawned w1 = spawned w" by simp
  from t w1 show "makedirs (mkdir_refused h) [] (fs w) (resolve h s) = (None, fs w1)" by simp
  from makedirs_None_stat[OF t] w1
  show "os_stat h w1 q = (if q = [] then Inl ENOENT
           else if prefix (resolve h q) (resolve h s) then Inr Directory else os_stat h w q)"
    by (simp add: os_stat_def)
qed

lemma os_makedirs_Some:
  assumes "os_makedirs h w s = (Some e, w1)"
  shows "(\<exists>k. e = OSError k) \<or> (\<exists>m. e = ValueError m)"
proof (cases "s = []")
  case True
  with assms show ?thesis by (auto simp: os_makedirs_def)
next
  case False
  with assms have "fst (makedirs (mkdir_refused h) [] (fs w) (resolve h s)) = Some e"
    by (auto simp: os_makedirs_def split: prod.splits)
  from makedirs_exn[OF this] refusal_exn_kind show ?thesis by auto
qed

lemma os_makedirs_isdir: "os_makedirs h w s = (None, w1) \<Longrightarrow> os_path_isdir h w1 s"
  using os_makedirs_None(1)[of h w s w1] os_makedirs_None(4)[of h w s w1 s]
  by (simp add: os_path_isdir_def)






lemma convert_after_makedirs_fs: "fs (snd (convert_after_makedirs h w inp out)) = fs w"
proof -
  obtain r w2 where c: "check_fonts_installed h w = (r, w2)" by (cases "check_fonts_installed h w")
  with check_fonts_fs[of h w] have "fs w2 = fs w" by simp
  with c show ?thesis
    by (auto simp: convert_after_makedirs_def Let_def split: sum.splits)
qed

subsection \<open>Evaluation on the concrete host\<close>

lemmas host_defs = example_host_def windows_host_def no_font_host_def no_soffice_host_def
  bad_format_host_def bad_bytes_host_def refusing_host_def example_world_def soffice_world_def

lemmas os_defs = os_stat_def os_path_exists_def os_path_isfile_def os_path_isdir_def
  os_makedirs_def Path_exists_def environ_get_def

lemmas font_defs = check_fonts_installed_def fc_list_try_def fc_list_spawn_def
  REQUIRED_CHS_FONTS_def truthy_def

lemmas conv_defs = convert_file_to_pdf_def convert_after_makedirs_def soffice_argv_def
  decode_def get_soffice_command_def convert_failed_prefix_def in_range_def

lemma ex_isfile: "os_path_isfile example_host example_world ''docs/report.docx''"
  by (simp add: host_defs os_defs)

lemma ex_makedirs: "os_makedirs example_host example_world ''out/pdf'' = (None, example_world1)"
  by (simp add: host_defs os_defs example_world1_def)

lemma ex_fonts: "check_fonts_installed example_host example_world1 = (Inr True, example_world2)"
  by (simp add: host_defs font_defs Let_def str_in_sublist sublist_code example_world1_def
        example_world2_def)

lemma ex_soffice: "get_soffice_command example_host example_world2 = Inr ''/usr/bin/soffice''"
  by (simp add: host_defs get_soffice_command_def Let_def truthy_def)

lemma bf_isfile: "os_path_isfile bad_format_host example_world ''docs/report.docx''"
  by (simp add: host_defs os_defs)

lemma bf_makedirs: "os_makedirs bad_format_host example_world ''out/pdf'' = (None, example_world1)"
  by (simp add: host_defs os_defs example_world1_def)

lemma bf_fonts: "check_fonts_installed bad_format_host example_world1 = (Inr True, example_world2)"
  by (simp add: host_defs font_defs Let_def str_in_sublist sublist_code example_world1_def
        example_world2_def)

lemma bf_soffice: "get_soffice_command bad_format_host example_world2 = Inr ''/usr/bin/soffice''"
  by (simp add: host_defs get_soffice_command_def Let_def truthy_def)

lemma bf_run:
  "run bad_format_host (soffice_argv ''/usr/bin/soffice'' ''docs/report.docx'' ''out/pdf'') =
     Inr \<lparr>returncode = 1, stdout = [], stderr = ''bad format''\<rparr>"
  by (simp add: host_defs)

section \<open>The claims\<close>

subsection \<open>The font check\<close>

text \<open>
  Claim C7. On Windows, \<open>check_fonts_installed\<close> returns true if and only if some required
  family name occurs in the name of some \<open>*.ttf\<close> entry of the system font directory;
  otherwise it raises an \<open>EnvironmentError\<close> whose message names every required family.
  The world is left as it was.
\<close>

theorem check_fonts_windows:
  assumes "system h = ''Windows''"
  shows "(fst (check_fonts_installed h w) = Inr True \<longleftrightarrow>
           (\<exists>font \<in> set REQUIRED_CHS_FONTS.
              \<exists>f \<in> set (glob_names h (Path ''C:/Windows/Fonts'') ''*.ttf''). sublist font f))
       \<and> (fst (check_fonts_installed h w) \<noteq> Inr True \<longrightarrow>
            fst (check_fonts_installed h w) = Inl (EnvironmentError missing_font_message))
       \<and> (\<forall>font \<in> set REQUIRED_CHS_FONTS. sublist font missing_font_message)
       \<and> snd (check_fonts_installed h w) = w"
  using assms message_names_fonts
  by (auto simp: check_fonts_installed_def Let_def windows_any)

text \<open>C7 on a Windows host whose font directory has \<open>arial.ttf\<close> and \<open>SimSun.ttf\<close>.\<close>

theorem check_fonts_windows_witness:
  "system windows_host = ''Windows'' \<and>
   fst (check_fonts_installed windows_host example_world) = Inr True"
proof -
  have sys: "system windows_host = ''Windows''" by (simp add: host_defs)
  have "\<exists>font \<in> set REQUIRED_CHS_FONTS.
          \<exists>f \<in> set (glob_names windows_host (Path ''C:/Windows/Fonts'') ''*.ttf''). sublist font f"
    by (simp add: host_defs REQUIRED_CHS_FONTS_def sublist_code)
  with check_fonts_windows[OF sys, of example_world] sys show ?thesis by blast
qed

text \<open>
  Claim C9. \<open>check_fonts_installed\<close> never returns false: on every platform it raises an
  \<open>EnvironmentError\<close> or returns true, and when it returns true a required family was
  detected (in a font file name on Windows, in the output of \<open>fc-list\<close> elsewhere).
\<close>

theorem check_fonts_never_false:
  "(\<exists>m. fst (check_fonts_installed h w) = Inl (EnvironmentError m)) \<or>
   (fst (check_fonts_installed h w) = Inr True \<and>
    (\<exists>font \<in> set REQUIRED_CHS_FONTS.
       if system h = ''Windows''
       then \<exists>f \<in> set (glob_names h (Path ''C:/Windows/Fonts'') ''*.ttf''). sublist font f
       else \<exists>output. check_output h [''fc-list'', '':lang=zh''] = Returned output \<and>
                     sublist font output))"
proof (cases "system h = ''Windows''")
  case True
  then show ?thesis
    by (auto simp: check_fonts_installed_def Let_def windows_any)
next
  case False
  then show ?thesis
    by (auto simp: check_fonts_installed_def Let_def fc_list_try_def scan_fonts_eq
             split: outcome.splits if_splits)
qed

text \<open>C9 on the Linux host, whose font list has Noto Sans CJK SC.\<close>

theorem check_fonts_never_false_witness:
  "fst (check_fonts_installed example_host example_world) = Inr True \<and>
   sublist ''Noto Sans CJK SC'' ''NotoSansCJK-Regular.ttc: Noto Sans CJK SC:style=Regular''"
proof -
  have "fst (check_fonts_installed example_host example_world) = Inr True"
    using check_fonts_never_false[of example_host example_world]
    by (simp add: host_defs font_defs Let_def sublist_code)
  then show ?thesis by (simp add: sublist_code)
qed

text \<open>
  What the branch for the other platforms does on every host. The \<open>raise\<close> for a
  missing font stands inside the \<open>try\<close>, so the handler catches it like an exception of
  \<open>fc-list\<close> and raises an \<open>EnvironmentError\<close> that begins with the fontconfig
  diagnostic: followed by the missing-font message when \<open>fc-list\<close> ran and listed no
  required family, by the text of the failure when it could not be run.
\<close>

lemma fc_list_branch_wraps:
  assumes "system h \<noteq> ''Windows''"
  shows "(\<forall>output. check_output h [''fc-list'', '':lang=zh''] = Returned output \<and>
            (\<forall>font \<in> set REQUIRED_CHS_FONTS. \<not> sublist font output) \<longrightarrow>
            fst (check_fonts_installed h w) =
              Inl (EnvironmentError (fontconfig_prefix @ missing_font_message)))
       \<and> (\<forall>font \<in> set REQUIRED_CHS_FONTS.
            sublist font (fontconfig_prefix @ missing_font_message))
       \<and> (\<forall>s. check_output h [''fc-list'', '':lang=zh''] = Raised s \<longrightarrow>
            fst (check_fonts_installed h w) = Inl (EnvironmentError (fontconfig_prefix @ s)))
       \<and> (\<forall>e. fst (check_fonts_installed h w) = Inl e \<longrightarrow>
            (\<exists>s. e = EnvironmentError (fontconfig_prefix @ s) \<and>
                 sublist ''install 'fontconfig' and'' (fontconfig_prefix @ s)))"
  using assms message_names_fonts_wrapped fontconfig_hint
  by (auto simp: check_fonts_installed_def Let_def fc_list_try_def scan_fonts_eq
           split: outcome.splits if_splits)

text \<open>
  Claim C1 says that on a platform other than Windows, when \<open>fc-list\<close> runs and none of
  the required families occurs in its output, the call fails with an \<open>EnvironmentError\<close>
  that lists the required families, and that the diagnostic suggesting fontconfig is
  produced only when \<open>fc-list\<close> cannot be launched. The code does not keep the second
  half. On the Linux host whose font list has only DejaVu Sans, \<open>fc-list\<close> is launched and
  returns its output, and the error raised is not the bare missing-font message that the
  Windows branch raises for the same condition: it begins with the fontconfig diagnostic.
\<close>

theorem fontconfig_hint_without_launch_failure:
  "system no_font_host \<noteq> ''Windows'' \<and>
   check_output no_font_host [''fc-list'', '':lang=zh''] =
     Returned ''DejaVuSans.ttf: DejaVu Sans:style=Book'' \<and>
   fst (check_fonts_installed no_font_host example_world) =
     Inl (EnvironmentError
       (''Font detection failed. Please install 'fontconfig' and fonts: '' @
        ''Missing Chinese font. Please install at least one of: '' @
        ''SimSun, Microsoft YaHei, Noto Sans CJK SC'')) \<and>
   fst (check_fonts_installed no_font_host example_world) \<noteq>
     Inl (EnvironmentError
       (''Missing Chinese font. Please install at least one of: '' @
        ''SimSun, Microsoft YaHei, Noto Sans CJK SC''))"
  by (simp add: host_defs font_defs Let_def str_in_sublist sublist_code fontconfig_prefix_def
        missing_font_message_def)

subsection \<open>The search for the executable\<close>

text \<open>
  Claim C4. \<open>get_soffice_command\<close> follows the search order of the specification: the name
  on the search path first, then the candidate list of the platform, of which the first path
  that exists is returned; when there is none it raises \<open>ConvertToPdfError\<close>. Existence is
  all that is asked of a candidate. (\<open>shutil.which\<close> returns a path or nothing, never the
  empty string.)
\<close>

theorem get_soffice_command_search_order:
  assumes "which h ''soffice'' \<noteq> Some []"
  shows "case spec_search_order h w of
           Some p \<Rightarrow> get_soffice_command h w = Inr p
         | None \<Rightarrow> \<exists>m. get_soffice_command h w = Inl (ConvertToPdfError m)"
  using assms
  by (auto simp: get_soffice_command_eq spec_search_order_def split: option.splits)

text \<open>
  C4 where \<open>/usr/bin/soffice\<close> is a directory and \<open>/usr/local/bin/soffice\<close> a regular
  file: the first is returned, since it exists.
\<close>

theorem get_soffice_command_search_order_witness:
  "which no_soffice_host ''soffice'' \<noteq> Some [] \<and>
   spec_search_order no_soffice_host soffice_world = Some ''/usr/bin/soffice'' \<and>
   get_soffice_command no_soffice_host soffice_world = Inr ''/usr/bin/soffice'' \<and>
   os_path_isdir no_soffice_host soffice_world ''/usr/bin/soffice''"
proof -
  have a: "which no_soffice_host ''soffice'' \<noteq> Some []" by (simp add: host_defs)
  have b: "spec_search_order no_soffice_host soffice_world = Some ''/usr/bin/soffice''"
    by (simp add: spec_search_order_def spec_candidates_def host_defs os_defs)
  have c: "os_path_isdir no_soffice_host soffice_world ''/usr/bin/soffice''"
    by (simp add: host_defs os_defs)
  from get_soffice_command_search_order[OF a, of soffice_world] a b c show ?thesis by simp
qed

text \<open>
  Claim C5. When the search path has no \<open>soffice\<close> and no candidate path exists,
  \<open>get_soffice_command\<close> raises a \<open>ConvertToPdfError\<close> whose message holds the install
  guidance of the platform: the download page and \<open>soffice.exe\<close> on Windows, the package
  manager commands elsewhere.
\<close>

theorem get_soffice_command_not_found:
  assumes "which h ''soffice'' = None"
      and "\<forall>p \<in> set (spec_candidates h). \<not> os_path_exists h w p"
  shows "\<exists>m. get_soffice_command h w = Inl (ConvertToPdfError m) \<and>
           (if system h = ''Windows''
            then sublist ''install LibreOffice from https://www.libreoffice.org/'' m \<and>
                 sublist ''ensure soffice.exe is in your PATH'' m
            else sublist ''sudo apt-get install libreoffice'' m \<and>
                 sublist ''sudo yum install libreoffice'' m \<and>
                 sublist ''brew install libreoffice'' m)"
proof -
  from assms(2) have nf: "find (os_path_exists h w) (spec_candidates h) = None"
    by (simp add: find_None_iff)
  show ?thesis
  proof (cases "system h = ''Windows''")
    case True
    with assms(1) nf show ?thesis
      by (simp add: get_soffice_command_eq windows_guidance)
  next
    case False
    have "sublist x unix_not_found_message \<Longrightarrow>
          sublist x (locating_prefix @ unix_not_found_message)" for x
      by (metis sublist_append)
    with False assms(1) nf show ?thesis
      by (simp add: get_soffice_command_eq unix_guidance)
  qed
qed

text \<open>C5 on the Linux host without \<open>soffice\<close>, in the world that has no install path.\<close>

theorem get_soffice_command_not_found_witness:
  "which no_soffice_host ''soffice'' = None \<and>
   get_soffice_command no_soffice_host example_world =
     Inl (ConvertToPdfError (locating_prefix @ unix_not_found_message))"
proof -
  have a: "which no_soffice_host ''soffice'' = None" by (simp add: host_defs)
  have b: "\<forall>p \<in> set (spec_candidates no_soffice_host).
             \<not> os_path_exists no_soffice_host example_world p"
    by (simp add: spec_candidates_def host_defs os_defs)
  have "get_soffice_command no_soffice_host example_world =
          Inl (ConvertToPdfError (locating_prefix @ unix_not_found_message))"
    using get_soffice_command_not_found[OF a b]
    by (simp add: get_soffice_command_def Let_def unix_possible_paths_def host_defs os_defs)
  with a show ?thesis by simp
qed

subsection \<open>The conversion\<close>

text \<open>
  Claim C3. When \<open>input_path\<close> is not an existing regular file, \<open>convert_file_to_pdf\<close>
  raises \<open>FileNotFoundError\<close>, with a message that names the path, and returns the world as
  it was: no directory has been created and no process spawned (the font check, which would
  spawn \<open>fc-list\<close>, has not run).
\<close>

theorem convert_missing_input:
  assumes "\<not> os_path_isfile h w input_path"
  shows "convert_file_to_pdf h w input_path output_dir =
           (Inl (FileNotFoundError (input_missing_message input_path)), w)
       \<and> sublist input_path (input_missing_message input_path)"
proof -
  have "sublist input_path (input_missing_message input_path)"
    unfolding input_missing_message_def by (rule sublist_appendI)
  with assms show ?thesis by (simp add: convert_file_to_pdf_def)
qed

text \<open>C3 for a document that is not there.\<close>

theorem convert_missing_input_witness:
  "\<not> os_path_isfile example_host example_world ''docs/missing.docx'' \<and>
   convert_file_to_pdf example_host example_world ''docs/missing.docx'' ''out'' =
     (Inl (FileNotFoundError ''The input file docs/missing.docx does not exist.''), example_world)"
proof -
  have a: "\<not> os_path_isfile example_host example_world ''docs/missing.docx''"
    by (simp add: host_defs os_defs)
  from convert_missing_input[OF a, of "''out''"] a show ?thesis
    by (simp add: input_missing_message_def)
qed

text \<open>
  Claim C8. When the input exists, the directory step and the font check succeed and an
  executable is located, the last process that \<open>convert_file_to_pdf\<close> spawns is that
  executable with the arguments \<open>--headless --norestore --invisible --convert-to pdf
  --outdir output_dir input_path\<close>, its standard output and standard error both piped.
  Before it the call has spawned only \<open>fc-list\<close>, and that only off Windows.
\<close>

theorem convert_spawns_soffice:
  assumes "os_path_isfile h w input_path"
      and "os_makedirs h w output_dir = (None, w1)"
      and "check_fonts_installed h w1 = (Inr b, w2)"
      and "get_soffice_command h w2 = Inr soffice_cmd"
  shows "spawned (snd (convert_file_to_pdf h w input_path output_dir)) =
           spawned w2 @
           [\<lparr>argv = [soffice_cmd, ''--headless'', ''--norestore'', ''--invisible'',
                      ''--convert-to'', ''pdf'', ''--outdir'', output_dir, input_path],
             stdout_to = PIPE, stderr_to = PIPE\<rparr>]
       \<and> spawned w2 = spawned w @ (if system h = ''Windows'' then [] else [fc_list_spawn])"
proof -
  from check_fonts_spawned[of h w1] assms(3) os_makedirs_None(2)[OF assms(2)]
  have "spawned w2 = spawned w @ (if system h = ''Windows'' then [] else [fc_list_spawn])"
    by simp
  moreover from assms have "spawned (snd (convert_file_to_pdf h w input_path output_dir)) =
           spawned w2 @
           [\<lparr>argv = [soffice_cmd, ''--headless'', ''--norestore'', ''--invisible'',
                      ''--convert-to'', ''pdf'', ''--outdir'', output_dir, input_path],
             stdout_to = PIPE, stderr_to = PIPE\<rparr>]"
    by (auto simp: convert_file_to_pdf_def convert_after_makedirs_def Let_def soffice_argv_def
             split: sum.splits)
  ultimately show ?thesis by simp
qed

text \<open>C8 for \<open>docs/report.docx\<close> converted into \<open>out/pdf\<close> on the Linux host.\<close>

theorem convert_spawns_soffice_witness:
  "os_path_isfile example_host example_world ''docs/report.docx'' \<and>
   os_makedirs example_host example_world ''out/pdf'' = (None, example_world1) \<and>
   check_fonts_installed example_host example_world1 = (Inr True, example_world2) \<and>
   get_soffice_command example_host example_world2 = Inr ''/usr/bin/soffice'' \<and>
   spawned (snd (convert_file_to_pdf example_host example_world ''docs/report.docx'' ''out/pdf'')) =
     [\<lparr>argv = [''fc-list'', '':lang=zh''], stdout_to = PIPE, stderr_to = Inherit\<rparr>,
      \<lparr>argv = [''/usr/bin/soffice'', ''--headless'', ''--norestore'', ''--invisible'',
                ''--convert-to'', ''pdf'', ''--outdir'', ''out/pdf'', ''docs/report.docx''],
        stdout_to = PIPE, stderr_to = PIPE\<rparr>]"
  using convert_spawns_soffice[OF ex_isfile ex_makedirs ex_fonts ex_soffice]
    ex_isfile ex_makedirs ex_fonts ex_soffice
  by (simp add: example_world2_def example_world1_def fc_list_spawn_def)

text \<open>
  Claim C2, as the code has it. With the input present, the directory step and the font
  check passed, the executable located and run: exit code zero returns normally, whatever
  the file system holds; a nonzero exit code with a standard error that is well-formed UTF-8
  raises \<open>ConvertToPdfError\<close> with a message that contains that text; a nonzero exit code
  with a standard error that is not well-formed UTF-8 raises the \<open>UnicodeDecodeError\<close> of
  \<open>decode\<close> instead.
\<close>

theorem convert_exit_code:
  assumes "os_path_isfile h w input_path"
      and "os_makedirs h w output_dir = (None, w1)"
      and "check_fonts_installed h w1 = (Inr b, w2)"
      and "get_soffice_command h w2 = Inr soffice_cmd"
      and "run h (soffice_argv soffice_cmd input_path output_dir) = Inr process"
  shows "(returncode process = 0 \<longrightarrow>
            fst (convert_file_to_pdf h w input_path output_dir) = Inr ())
       \<and> (returncode process \<noteq> 0 \<and> utf8_valid (stderr process) \<longrightarrow>
            fst (convert_file_to_pdf h w input_path output_dir) =
              Inl (ConvertToPdfError (convert_failed_prefix @ stderr process))
            \<and> sublist (stderr process) (convert_failed_prefix @ stderr process))
       \<and> (returncode process \<noteq> 0 \<and> \<not> utf8_valid (stderr process) \<longrightarrow>
            fst (convert_file_to_pdf h w input_path output_dir) =
              Inl (UnicodeDecodeError (stderr process)))"
  using assms
  by (auto simp: convert_file_to_pdf_def convert_after_makedirs_def Let_def decode_def)

text \<open>C2 as amended, for an executable that exits with code 1 and writes \<open>bad format\<close>.\<close>

theorem convert_exit_code_witness:
  "os_path_isfile bad_format_host example_world ''docs/report.docx'' \<and>
   os_makedirs bad_format_host example_world ''out/pdf'' = (None, example_world1) \<and>
   check_fonts_installed bad_format_host example_world1 = (Inr True, example_world2) \<and>
   get_soffice_command bad_format_host example_world2 = Inr ''/usr/bin/soffice'' \<and>
   run bad_format_host (soffice_argv ''/usr/bin/soffice'' ''docs/report.docx'' ''out/pdf'') =
     Inr \<lparr>returncode = 1, stdout = [], stderr = ''bad format''\<rparr> \<and>
   fst (convert_file_to_pdf bad_format_host example_world ''docs/report.docx'' ''out/pdf'') =
     Inl (ConvertToPdfError ''LibreOffice convert failed: bad format'') \<and>
   sublist ''bad format'' ''LibreOffice convert failed: bad format''"
proof -
  have v: "utf8_valid ''bad format''" by (simp add: in_range_def)
  from convert_exit_code[OF bf_isfile bf_makedirs bf_fonts bf_soffice bf_run] v
  show ?thesis
    using bf_isfile bf_makedirs bf_fonts bf_soffice bf_run
    by (simp add: convert_failed_prefix_def)
qed

text \<open>
  Claim C2 as stated fails: the input exists, the font check and the search succeed, the
  executable exits with code 1, and its standard error is the single byte \<open>0xFF\<close>. The call
  raises \<open>UnicodeDecodeError\<close>, not \<open>ConvertToPdfError\<close>.
\<close>

theorem convert_undecodable_stderr:
  "os_path_isfile bad_bytes_host example_world ''docs/report.docx'' \<and>
   fst (check_fonts_installed bad_bytes_host example_world1) = Inr True \<and>
   get_soffice_command bad_bytes_host example_world2 = Inr ''/usr/bin/soffice'' \<and>
   run bad_bytes_host (soffice_argv ''/usr/bin/soffice'' ''docs/report.docx'' ''out/pdf'') =
     Inr \<lparr>returncode = 1, stdout = [], stderr = [CHR 0xFF]\<rparr> \<and>
   convert_file_to_pdf bad_bytes_host example_world ''docs/report.docx'' ''out/pdf'' =
     (Inl (UnicodeDecodeError [CHR 0xFF]),
      example_world1\<lparr>spawned :=
        [fc_list_spawn,
         \<lparr>argv = soffice_argv ''/usr/bin/soffice'' ''docs/report.docx'' ''out/pdf'',
           stdout_to = PIPE, stderr_to = PIPE\<rparr>]\<rparr>)"
  by (simp add: host_defs os_defs font_defs conv_defs Let_def str_in_sublist sublist_code
        example_world1_def example_world2_def)

text \<open>
  Claim C10. For an existing input file the directory step comes first. When it fails, its
  error is the result, the world is as that step left it and no process has been spawned.
  When it succeeds, \<open>output_dir\<close> is a directory before any process of this call is
  spawned, the rest of the call runs in that world and leaves the file system as the
  directory step made it; so \<open>output_dir\<close> is a directory after the call, whether the call
  returns normally or raises \<open>EnvironmentError\<close> (the font check) or
  \<open>ConvertToPdfError\<close> (the search, or a nonzero exit code).
\<close>

theorem convert_output_dir_persists:
  assumes "os_path_isfile h w input_path"
  shows "(\<forall>e w1. os_makedirs h w output_dir = (Some e, w1) \<longrightarrow>
            convert_file_to_pdf h w input_path output_dir = (Inl e, w1) \<and>
            spawned w1 = spawned w)
       \<and> (\<forall>w1. os_makedirs h w output_dir = (None, w1) \<longrightarrow>
            os_path_isdir h w1 output_dir \<and> spawned w1 = spawned w \<and>
            convert_file_to_pdf h w input_path output_dir =
              convert_after_makedirs h w1 input_path output_dir \<and>
            fs (snd (convert_file_to_pdf h w input_path output_dir)) = fs w1 \<and>
            os_path_isdir h (snd (convert_file_to_pdf h w input_path output_dir)) output_dir)
       \<and> (\<forall>m. fst (convert_file_to_pdf h w input_path output_dir) = Inl (EnvironmentError m) \<or>
               fst (convert_file_to_pdf h w input_path output_dir) = Inl (ConvertToPdfError m) \<or>
               fst (convert_file_to_pdf h w input_path output_dir) = Inr () \<longrightarrow>
            os_path_isdir h (snd (convert_file_to_pdf h w input_path output_dir)) output_dir)"
proof -
  let ?r = "convert_file_to_pdf h w input_path output_dir"
  have A: "?r = (Inl e, w1) \<and> spawned w1 = spawned w"
    if m: "os_makedirs h w output_dir = (Some e, w1)" for e w1
    using assms m os_makedirs_spawned[of h w output_dir]
    by (simp add: convert_file_to_pdf_def)
  have B: "os_path_isdir h w1 output_dir \<and> spawned w1 = spawned w \<and>
            ?r = convert_after_makedirs h w1 input_path output_dir \<and>
            fs (snd ?r) = fs w1 \<and> os_path_isdir h (snd ?r) output_dir"
    if m: "os_makedirs h w output_dir = (None, w1)" for w1
  proof -
    have r: "?r = convert_after_makedirs h w1 input_path output_dir"
      using assms m by (simp add: convert_file_to_pdf_def)
    have f: "fs (snd ?r) = fs w1" by (simp add: r convert_after_makedirs_fs)
    have d: "os_path_isdir h w1 output_dir" by (rule os_makedirs_isdir[OF m])
    from d f have "os_path_isdir h (snd ?r) output_dir"
      by (simp add: os_path_isdir_def os_stat_cong[of "snd ?r" w1 h h])
    with r f d os_makedirs_None(2)[OF m] show ?thesis by simp
  qed
  have C: "os_path_isdir h (snd ?r) output_dir"
    if res: "fst ?r = Inl (EnvironmentError m) \<or> fst ?r = Inl (ConvertToPdfError m) \<or>
             fst ?r = Inr ()" for m
  proof -
    obtain x w1 where m: "os_makedirs h w output_dir = (x, w1)"
      by (cases "os_makedirs h w output_dir")
    show ?thesis
    proof (cases x)
      case (Some e)
      with m os_makedirs_Some[of h w output_dir e w1] A[of e w1] res show ?thesis by auto
    next
      case None
      with m B show ?thesis by blast
    qed
  qed
  from A B C show ?thesis by blast
qed

text \<open>
  C10 on the host without a required font: \<open>out/pdf\<close> does not exist before the call, the
  call raises the \<open>EnvironmentError\<close> of the font check, and \<open>out/pdf\<close> is a directory
  afterwards.
\<close>

theorem convert_output_dir_persists_witness:
  "os_path_isfile no_font_host example_world ''docs/report.docx'' \<and>
   \<not> os_path_exists no_font_host example_world ''out/pdf'' \<and>
   fst (convert_file_to_pdf no_font_host example_world ''docs/report.docx'' ''out/pdf'') =
     Inl (EnvironmentError (fontconfig_prefix @ missing_font_message)) \<and>
   os_path_isdir no_font_host
     (snd (convert_file_to_pdf no_font_host example_world ''docs/report.docx'' ''out/pdf''))
     ''out/pdf''"
proof -
  have a: "os_path_isfile no_font_host example_world ''docs/report.docx''"
    by (simp add: host_defs os_defs)
  have b: "\<not> os_path_exists no_font_host example_world ''out/pdf''"
    by (simp add: host_defs os_defs)
  have c: "fst (convert_file_to_pdf no_font_host example_world ''docs/report.docx'' ''out/pdf'') =
     Inl (EnvironmentError (fontconfig_prefix @ missing_font_message))"
    by (simp add: host_defs os_defs font_defs conv_defs Let_def str_in_sublist sublist_code)
  from convert_output_dir_persists[OF a, of "''out/pdf''"] a b c show ?thesis by blast
qed




end
